theory Spec2Isabelle
  imports Main
begin

section \<open>Package ebird: records of MyEBirdData.csv\<close>

text \<open>
  The Go struct \<^verbatim>\<open>Record\<close>, field by field. Go strings are byte sequences; they are
  modelled as \<^typ>\<open>string\<close> (lists of 8-bit characters). \<^verbatim>\<open>Line\<close> is a Go \<^verbatim>\<open>int\<close>
  that only ever holds a slice index plus two, so \<^typ>\<open>nat\<close> is enough.
\<close>

record Record =
  Line :: nat
  SubmissionID :: string
  CommonName :: string
  ScientificName :: string
  TaxonomicOrder :: string
  Count :: string
  StateProvince :: string
  County :: string
  LocationID :: string
  Location :: string
  Latitude :: string
  Longitude :: string
  Date :: string
  Time :: string
  Protocol :: string
  DurationMin :: string
  AllObsReported :: string
  DistanceTraveledKm :: string
  AreaCoveredHa :: string
  NumberOfObservers :: string
  BreedingCode :: string
  ObservationDetails :: string
  ChecklistComments :: string
  MLCatalogNumbers :: string

text \<open>\<^verbatim>\<open>func (r Record) URL() string\<close>\<close>

definition URL :: "Record \<Rightarrow> string" where
  "URL r = ''https://ebird.org/checklist/'' @ SubmissionID r"

text \<open>
  The struct \<^verbatim>\<open>ObservationID\<close>. Its two fields carry the same names as two fields of
  \<^verbatim>\<open>Record\<close>; the prefix \<open>oid_\<close> keeps the selectors apart.
\<close>

record ObservationID =
  oid_SubmissionID :: string
  oid_ScientificName :: string

text \<open>\<^verbatim>\<open>func (r Record) ObservationID() ObservationID\<close>\<close>

definition ObservationID_of :: "Record \<Rightarrow> ObservationID" where
  "ObservationID_of r =
     \<lparr>oid_SubmissionID = SubmissionID r, oid_ScientificName = ScientificName r\<rparr>"

text \<open>\<^verbatim>\<open>func (o ObservationID) Valid() bool\<close>\<close>

definition Valid :: "ObservationID \<Rightarrow> bool" where
  "Valid oid = (oid_SubmissionID oid \<noteq> '''' \<and> oid_ScientificName oid \<noteq> '''')"

subsection \<open>Timestamp resolution: \<^verbatim>\<open>Record.Observed\<close> over \<^verbatim>\<open>time.Parse\<close>\<close>

text \<open>
  \<^verbatim>\<open>Observed\<close> calls \<^verbatim>\<open>time.Parse\<close> of the Go standard library with four layouts. The
  part of \<^verbatim>\<open>time.Parse\<close> these layouts reach is modelled here after the library's
  \<^verbatim>\<open>format.go\<close>. The library cuts a layout into literal prefixes and standard elements
  (\<^verbatim>\<open>nextStdChunk\<close>); the elements the four layouts contain are:
\<close>

datatype std =
  stdLongYear      \<comment> \<open>\<^verbatim>\<open>2006\<close>\<close>
| stdNumMonth      \<comment> \<open>\<^verbatim>\<open>1\<close>\<close>
| stdZeroMonth     \<comment> \<open>\<^verbatim>\<open>01\<close>\<close>
| stdDay           \<comment> \<open>\<^verbatim>\<open>2\<close>\<close>
| stdZeroDay       \<comment> \<open>\<^verbatim>\<open>02\<close>\<close>
| stdHour12        \<comment> \<open>\<^verbatim>\<open>3\<close>\<close>
| stdZeroHour12    \<comment> \<open>\<^verbatim>\<open>03\<close>\<close>
| stdZeroMinute    \<comment> \<open>\<^verbatim>\<open>04\<close>\<close>
| stdPM            \<comment> \<open>\<^verbatim>\<open>PM\<close>\<close>

text \<open>
  A layout as the sequence of chunks \<^verbatim>\<open>nextStdChunk\<close> returns for it: each chunk is the
  literal prefix and the element after it. All four layouts end in an element, so the
  last call returns the empty prefix and no element.
\<close>

type_synonym layout = "(string \<times> std) list"

text \<open>\<^verbatim>\<open>"1/2/2006"\<close>\<close>

definition layout_slash_date :: layout where
  "layout_slash_date = [('''', stdNumMonth), (''/'', stdDay), (''/'', stdLongYear)]"

text \<open>\<^verbatim>\<open>"2006-01-02"\<close>\<close>

definition layout_iso_date :: layout where
  "layout_iso_date = [('''', stdLongYear), (''-'', stdZeroMonth), (''-'', stdZeroDay)]"

text \<open>\<^verbatim>\<open>"1/2/2006 3:04 PM"\<close>\<close>

definition layout_slash_date_time :: layout where
  "layout_slash_date_time =
     [('''', stdNumMonth), (''/'', stdDay), (''/'', stdLongYear),
      ('' '', stdHour12), ('':'', stdZeroMinute), ('' '', stdPM)]"

text \<open>\<^verbatim>\<open>"2006-01-02 03:04 PM"\<close>\<close>

definition layout_iso_date_time :: layout where
  "layout_iso_date_time =
     [('''', stdLongYear), (''-'', stdZeroMonth), (''-'', stdZeroDay),
      ('' '', stdZeroHour12), ('':'', stdZeroMinute), ('' '', stdPM)]"

text \<open>
  The error value of \<^verbatim>\<open>time.Parse\<close> is a \<^verbatim>\<open>*ParseError\<close>; the model keeps which of
  its three shapes it has: a value that does not match the layout (\<^verbatim>\<open>errBad\<close>), a field
  out of range, or text left over after the layout is used up.
\<close>

datatype ParseError = BadValue | OutOfRange string | ExtraText string

text \<open>\<^verbatim>\<open>isDigit(s, i)\<close> on the byte at hand, and the digit's value \<^verbatim>\<open>int(c - '0')\<close>.\<close>

definition is_digit :: "char \<Rightarrow> bool" where
  "is_digit c = (48 \<le> (of_char c :: nat) \<and> (of_char c :: nat) \<le> 57)"

definition digit_val :: "char \<Rightarrow> int" where
  "digit_val c = int (of_char c) - 48"

text \<open>
  \<^verbatim>\<open>getnum(s, fixed)\<close>: one or two leading digits; with \<open>fixed\<close>, exactly two are
  required. \<open>None\<close> is \<^verbatim>\<open>errBad\<close>.
\<close>

fun getnum :: "string \<Rightarrow> bool \<Rightarrow> (int \<times> string) option" where
  "getnum [] fixed = None"
| "getnum [c] fixed =
     (if \<not> is_digit c then None else if fixed then None else Some (digit_val c, []))"
| "getnum (c # d # s) fixed =
     (if \<not> is_digit c then None
      else if \<not> is_digit d then (if fixed then None else Some (digit_val c, d # s))
      else Some (digit_val c * 10 + digit_val d, s))"

text \<open>
  \<^verbatim>\<open>atoi\<close>: an optional sign, then digits up to the end of the string. The overflow
  test of \<^verbatim>\<open>leadingInt\<close> is out of reach for the four bytes \<^verbatim>\<open>atoi\<close> is given here.
\<close>

definition leading_value :: "string \<Rightarrow> int" where
  "leading_value s = foldl (\<lambda>x c. x * 10 + digit_val c) 0 s"

definition atoi :: "string \<Rightarrow> int option" where
  "atoi s =
     (let neg = (s \<noteq> [] \<and> hd s = CHR ''-'');
          s' = (if s \<noteq> [] \<and> (hd s = CHR ''-'' \<or> hd s = CHR ''+'') then tl s else s)
      in if list_all is_digit s' then Some (if neg then - leading_value s' else leading_value s')
         else None)"

text \<open>\<^verbatim>\<open>cutspace\<close> drops leading spaces.\<close>

definition cutspace :: "string \<Rightarrow> string" where
  "cutspace s = dropWhile (\<lambda>c. c = CHR '' '') s"

text \<open>
  \<^verbatim>\<open>skip(value, prefix)\<close>: the literal prefix must lead the value; a space in the prefix
  stands for any run of spaces in the value (also none, at the end of the value).
\<close>

function skip :: "string \<Rightarrow> string \<Rightarrow> string option" where
  "skip val [] = Some val"
| "skip val (p # ps) =
     (if p = CHR '' '' then
        (if val \<noteq> [] \<and> hd val \<noteq> CHR '' '' then None
         else skip (cutspace val) (cutspace ps))
      else if val = [] \<or> hd val \<noteq> p then None
      else skip (tl val) ps)"
  by pat_completeness auto
termination
  by (relation "measure (\<lambda>(val, prefix). length prefix)")
     (auto simp: cutspace_def intro: le_imp_less_Suc length_dropWhile_le)

text \<open>The variables \<^verbatim>\<open>parse\<close> fills in, with the initial values it gives them.\<close>

record parsed =
  p_year :: int
  p_month :: int
  p_day :: int
  p_hour :: int
  p_min :: int
  amSet :: bool
  pmSet :: bool

definition parsed_init :: parsed where
  "parsed_init =
     \<lparr>p_year = 0, p_month = - 1, p_day = - 1, p_hour = 0, p_min = 0,
      amSet = False, pmSet = False\<rparr>"

text \<open>
  One case of the \<^verbatim>\<open>switch std & stdMask\<close>, followed by the two tests after the switch
  (\<^verbatim>\<open>rangeErrString\<close> first, then \<^verbatim>\<open>err\<close>).
\<close>

fun parse_std :: "std \<Rightarrow> parsed \<Rightarrow> string \<Rightarrow> ParseError + (parsed \<times> string)" where
  "parse_std stdLongYear st val =
     (if length val < 4 \<or> \<not> is_digit (hd val) then Inl BadValue
      else case atoi (take 4 val) of
             None \<Rightarrow> Inl BadValue
           | Some y \<Rightarrow> Inr (st\<lparr>p_year := y\<rparr>, drop 4 val))"
| "parse_std stdNumMonth st val =
     (case getnum val False of
        None \<Rightarrow> Inl BadValue
      | Some (m, rest) \<Rightarrow>
          if m \<le> 0 \<or> 12 < m then Inl (OutOfRange ''month'')
          else Inr (st\<lparr>p_month := m\<rparr>, rest))"
| "parse_std stdZeroMonth st val =
     (case getnum val True of
        None \<Rightarrow> Inl BadValue
      | Some (m, rest) \<Rightarrow>
          if m \<le> 0 \<or> 12 < m then Inl (OutOfRange ''month'')
          else Inr (st\<lparr>p_month := m\<rparr>, rest))"
| "parse_std stdDay st val =
     (case getnum val False of
        None \<Rightarrow> Inl BadValue
      | Some (d, rest) \<Rightarrow> Inr (st\<lparr>p_day := d\<rparr>, rest))"
| "parse_std stdZeroDay st val =
     (case getnum val True of
        None \<Rightarrow> Inl BadValue
      | Some (d, rest) \<Rightarrow> Inr (st\<lparr>p_day := d\<rparr>, rest))"
| "parse_std stdHour12 st val =
     (case getnum val False of
        None \<Rightarrow> Inl BadValue
      | Some (h, rest) \<Rightarrow>
          if h < 0 \<or> 12 < h then Inl (OutOfRange ''hour'')
          else Inr (st\<lparr>p_hour := h\<rparr>, rest))"
| "parse_std stdZeroHour12 st val =
     (case getnum val True of
        None \<Rightarrow> Inl BadValue
      | Some (h, rest) \<Rightarrow>
          if h < 0 \<or> 12 < h then Inl (OutOfRange ''hour'')
          else Inr (st\<lparr>p_hour := h\<rparr>, rest))"
| "parse_std stdZeroMinute st val =
     (case getnum val True of
        None \<Rightarrow> Inl BadValue
      | Some (mi, rest) \<Rightarrow>
          if mi < 0 \<or> 60 \<le> mi then Inl (OutOfRange ''minute'')
          else Inr (st\<lparr>p_min := mi\<rparr>, rest))"
| "parse_std stdPM st val =
     (if length val < 2 then Inl BadValue
      else if take 2 val = ''PM'' then Inr (st\<lparr>pmSet := True\<rparr>, drop 2 val)
      else if take 2 val = ''AM'' then Inr (st\<lparr>amSet := True\<rparr>, drop 2 val)
      else Inl BadValue)"

text \<open>
  The loop of \<^verbatim>\<open>parse\<close>: per chunk, skip the prefix, then read the element. When the
  layout is used up, text left in the value is an error.
\<close>

fun parse_chunks :: "layout \<Rightarrow> parsed \<Rightarrow> string \<Rightarrow> ParseError + parsed" where
  "parse_chunks [] st val = (if val \<noteq> [] then Inl (ExtraText val) else Inr st)"
| "parse_chunks ((prefix, s) # layout) st val =
     (case skip val prefix of
        None \<Rightarrow> Inl BadValue
      | Some val' \<Rightarrow>
          (case parse_std s st val' of
             Inl e \<Rightarrow> Inl e
           | Inr (st', val'') \<Rightarrow> parse_chunks layout st' val''))"

text \<open>\<^verbatim>\<open>isLeap\<close> and \<^verbatim>\<open>daysIn\<close>.\<close>

definition isLeap :: "int \<Rightarrow> bool" where
  "isLeap year = (year mod 4 = 0 \<and> (year mod 100 \<noteq> 0 \<or> year mod 400 = 0))"

definition daysIn :: "int \<Rightarrow> int \<Rightarrow> int" where
  "daysIn m year =
     (if m = 2 then (if isLeap year then 29 else 28)
      else if m = 4 \<or> m = 6 \<or> m = 9 \<or> m = 11 then 30
      else 31)"

text \<open>
  The instant \<^verbatim>\<open>time.Date(year, month, day, hour, min, 0, 0, UTC)\<close>. \<^verbatim>\<open>parse\<close> calls
  \<^verbatim>\<open>Date\<close> with every field in its range (the month in 1..12, the day within the month,
  the hour below 24, the minute below 60), where \<^verbatim>\<open>Date\<close> normalises nothing: the
  instant is that civil time in UTC, and two such instants are equal exactly when their
  fields are.
\<close>

record Instant =
  year :: int
  month :: int
  day :: int
  hour :: int
  minute :: int

text \<open>
  \<^verbatim>\<open>time.Parse(layout, value)\<close>: the loop, the twelve-hour adjustment, the defaults for
  a month or day the layout does not have, the day-of-month test, and \<^verbatim>\<open>Date\<close>.
\<close>

definition Parse :: "layout \<Rightarrow> string \<Rightarrow> ParseError + Instant" where
  "Parse layout val =
     (case parse_chunks layout parsed_init val of
        Inl e \<Rightarrow> Inl e
      | Inr st \<Rightarrow>
          let h = (if pmSet st \<and> p_hour st < 12 then p_hour st + 12
                   else if amSet st \<and> p_hour st = 12 then 0
                   else p_hour st);
              m = (if p_month st < 0 then 1 else p_month st);
              d = (if p_day st < 0 then 1 else p_day st)
          in if d < 1 \<or> d > daysIn m (p_year st) then Inl (OutOfRange ''day'')
             else Inr \<lparr>year = p_year st, month = m, day = d, hour = h, minute = p_min st\<rparr>)"

text \<open>\<^verbatim>\<open>func (r Record) Observed() (time.Time, error)\<close>\<close>

definition Observed :: "Record \<Rightarrow> ParseError + Instant" where
  "Observed r =
     (if Time r = [] then
        (if CHR ''/'' \<in> set (Date r) then Parse layout_slash_date (Date r)
         else Parse layout_iso_date (Date r))
      else if CHR ''/'' \<in> set (Date r) then
        Parse layout_slash_date_time (Date r @ '' '' @ Time r)
      else Parse layout_iso_date_time (Date r @ '' '' @ Time r))"

text \<open>A record that carries only a date and a time.\<close>

definition dated :: "string \<Rightarrow> string \<Rightarrow> Record" where
  "dated d t =
     \<lparr>Line = 2, SubmissionID = [], CommonName = [], ScientificName = [],
      TaxonomicOrder = [], Count = [], StateProvince = [], County = [], LocationID = [],
      Location = [], Latitude = [], Longitude = [], Date = d, Time = t, Protocol = [],
      DurationMin = [], AllObsReported = [], DistanceTraveledKm = [], AreaCoveredHa = [],
      NumberOfObservers = [], BreedingCode = [], ObservationDetails = [],
      ChecklistComments = [], MLCatalogNumbers = []\<rparr>"

text \<open>
  How the exporting clients write dates and clock times, for statements about all of
  them: a decimal digit, a number on two and on four digits, a one-digit hour without
  its zero, the ISO date, and the twelve-hour clock time in its padded and unpadded
  form. \<open>hour24\<close> is the hour of the day a twelve-hour clock time denotes.
\<close>

definition digit_char :: "nat \<Rightarrow> char" where
  "digit_char k = ''0123456789'' ! k"

definition pad2 :: "nat \<Rightarrow> string" where
  "pad2 n = [digit_char (n div 10), digit_char (n mod 10)]"

definition pad4 :: "nat \<Rightarrow> string" where
  "pad4 n = pad2 (n div 100) @ pad2 (n mod 100)"

definition unpadded :: "nat \<Rightarrow> string" where
  "unpadded n = (if n < 10 then [digit_char n] else pad2 n)"

definition iso_date :: "nat \<Rightarrow> nat \<Rightarrow> nat \<Rightarrow> string" where
  "iso_date y m d = pad4 y @ ''-'' @ pad2 m @ ''-'' @ pad2 d"

definition meridiem :: "bool \<Rightarrow> string" where
  "meridiem pm = (if pm then ''PM'' else ''AM'')"

definition clock_padded :: "nat \<Rightarrow> nat \<Rightarrow> bool \<Rightarrow> string" where
  "clock_padded h mi pm = pad2 h @ '':'' @ pad2 mi @ '' '' @ meridiem pm"

definition clock_unpadded :: "nat \<Rightarrow> nat \<Rightarrow> bool \<Rightarrow> string" where
  "clock_unpadded h mi pm = unpadded h @ '':'' @ pad2 mi @ '' '' @ meridiem pm"

definition hour24 :: "nat \<Rightarrow> bool \<Rightarrow> nat" where
  "hour24 h pm = (if pm then (if h < 12 then h + 12 else h) else (if h = 12 then 0 else h))"

subsection \<open>Asset resolution: \<^verbatim>\<open>DownloadMLAsset\<close>\<close>

text \<open>
  What \<^verbatim>\<open>DownloadMLAsset\<close> reads of an \<^verbatim>\<open>http.Response\<close>: the status code, the status
  text and the body.
\<close>

record Response =
  StatusCode :: nat
  Status :: string
  Body :: string

definition StatusOK :: nat where
  "StatusOK = 200"

definition StatusNotFound :: nat where
  "StatusNotFound = 404"

text \<open>
  The world outside the function: the web (\<^verbatim>\<open>http.Get\<close> gives the error text or the
  response for a URL) and the steps on the temporary file, each with the error text it
  may report. \<open>tmp_Read\<close> stands for reading up to 512 bytes back from the file that
  holds the given body; a read that ends in \<^verbatim>\<open>io.EOF\<close> is not an error.
  \<open>ExtensionsByType\<close> gives the error value (\<open>None\<close> for \<^verbatim>\<open>nil\<close>) and the extensions.
\<close>

record world =
  http_Get :: "string \<Rightarrow> string + Response"
  CreateTemp :: "string + string"
  io_Copy :: "string \<Rightarrow> string \<Rightarrow> string option"
  tmp_Seek :: "string \<Rightarrow> string option"
  tmp_Read :: "string \<Rightarrow> string + string"
  DetectContentType :: "string \<Rightarrow> string"
  ExtensionsByType :: "string \<Rightarrow> string option \<times> string list"
  os_Rename :: "string \<Rightarrow> string \<Rightarrow> string option"

text \<open>
  The result of a call: the three Go results (file name, \<^verbatim>\<open>isPhoto\<close>, error) and, in
  front, the URLs requested with \<^verbatim>\<open>http.Get\<close> in the order of the requests.
\<close>

type_synonym asset_result = "string list \<times> string \<times> bool \<times> string option"

definition photo_url :: "string \<Rightarrow> string" where
  "photo_url mlAssetID =
     ''https://cdn.download.ams.birds.cornell.edu/api/v2/asset/'' @ mlAssetID @ ''/2400''"

definition sound_url :: "string \<Rightarrow> string" where
  "sound_url mlAssetID =
     ''https://cdn.download.ams.birds.cornell.edu/api/v2/asset/'' @ mlAssetID @ ''/mp3''"

text \<open>The head of every error message, \<^verbatim>\<open>DownloadMLAsset(%s): \<close>.\<close>

definition err_head :: "string \<Rightarrow> string" where
  "err_head mlAssetID = ''DownloadMLAsset('' @ mlAssetID @ ''): ''"

text \<open>How \<^verbatim>\<open>%w\<close> prints an error value that may be nil.\<close>

definition show_err :: "string option \<Rightarrow> string" where
  "show_err e = (case e of None \<Rightarrow> ''%!w(<nil>)'' | Some msg \<Rightarrow> msg)"

text \<open>
  The function from \<^verbatim>\<open>os.CreateTemp\<close> to its end: copy the body, choose the extension
  (sniffed for a photo, \<^verbatim>\<open>.mp3\<close> otherwise), rename. No request is made here.
\<close>

definition store_asset :: "world \<Rightarrow> string \<Rightarrow> Response \<Rightarrow> bool \<Rightarrow> string \<times> bool \<times> string option" where
  "store_asset w mlAssetID resp isPhoto =
     (case CreateTemp w of
        Inl err \<Rightarrow> ('''', isPhoto, Some (err_head mlAssetID @ ''CreateTemp: '' @ err))
      | Inr tmp \<Rightarrow>
          (case io_Copy w tmp (Body resp) of
             Some err \<Rightarrow>
               ('''', isPhoto,
                Some (err_head mlAssetID @ ''failed to copy asset data to file: '' @ err))
           | None \<Rightarrow>
               let ext_or_err =
                     (if isPhoto then
                        (case tmp_Seek w tmp of
                           Some err \<Rightarrow>
                             Inl (err_head mlAssetID
                                  @ ''failed to seek to beginning of temp file: '' @ err)
                         | None \<Rightarrow>
                             (case tmp_Read w (Body resp) of
                                Inl err \<Rightarrow>
                                  Inl (err_head mlAssetID
                                       @ ''failed to read from temp file for content type detection: ''
                                       @ err)
                              | Inr buf \<Rightarrow>
                                  let mimeType = DetectContentType w buf;
                                      (err, extensions) = ExtensionsByType w mimeType
                                  in if err \<noteq> None \<or> length extensions = 0 then
                                       Inl (err_head mlAssetID
                                            @ ''failed to find file extension for mime type ''
                                            @ mimeType @ '': '' @ show_err err)
                                     else Inr (hd extensions)))
                      else Inr ''.mp3'')
               in (case ext_or_err of
                     Inl msg \<Rightarrow> ('''', isPhoto, Some msg)
                   | Inr ext \<Rightarrow>
                       let newPath = tmp @ ext
                       in (case os_Rename w tmp newPath of
                             Some err \<Rightarrow>
                               ('''', isPhoto,
                                Some (err_head mlAssetID @ ''failed to rename file: '' @ err))
                           | None \<Rightarrow> (newPath, isPhoto, None)))))"

text \<open>
  The statements after the probes: a status other than 200 on the last response is the
  error that names the last URL and that status; otherwise the asset is stored.
\<close>

definition check_status ::
  "world \<Rightarrow> string \<Rightarrow> string \<Rightarrow> Response \<Rightarrow> bool \<Rightarrow> string \<times> bool \<times> string option" where
  "check_status w mlAssetID url resp isPhoto =
     (if StatusCode resp \<noteq> StatusOK then
        ('''', isPhoto, Some (err_head mlAssetID @ url @ '': '' @ Status resp))
      else store_asset w mlAssetID resp isPhoto)"

text \<open>\<^verbatim>\<open>func DownloadMLAsset(mlAssetID string) (string, bool, error)\<close>\<close>

definition DownloadMLAsset :: "world \<Rightarrow> string \<Rightarrow> asset_result" where
  "DownloadMLAsset w mlAssetID =
     (let url = photo_url mlAssetID
      in case http_Get w url of
           Inl err \<Rightarrow> ([url], '''', False, Some (err_head mlAssetID @ url @ '': '' @ err))
         | Inr resp \<Rightarrow>
             let isPhoto = (StatusCode resp = StatusOK)
             in if StatusCode resp = StatusNotFound then
                  (let url' = sound_url mlAssetID
                   in case http_Get w url' of
                        Inl err \<Rightarrow>
                          ([url, url'], '''', isPhoto,
                           Some (err_head mlAssetID @ url' @ '': '' @ err))
                      | Inr resp' \<Rightarrow>
                          ([url, url'], check_status w mlAssetID url' resp' isPhoto))
                else ([url], check_status w mlAssetID url resp isPhoto))"

text \<open>The requests of a call, and a web in which only the sound rendition exists.\<close>

definition requests :: "asset_result \<Rightarrow> string list" where
  "requests res = fst res"

definition sound_only_world :: world where
  "sound_only_world =
     \<lparr>http_Get = (\<lambda>url. if url = sound_url ''123''
                          then Inr \<lparr>StatusCode = 200, Status = ''200 OK'', Body = ''ID3''\<rparr>
                        else if url = photo_url ''123''
                          then Inr \<lparr>StatusCode = 404, Status = ''404 Not Found'', Body = []\<rparr>
                        else Inr \<lparr>StatusCode = 500, Status = ''500 Internal Server Error'',
                                  Body = []\<rparr>),
      CreateTemp = Inr ''/tmp/birdsync1'',
      io_Copy = (\<lambda>tmp body. None),
      tmp_Seek = (\<lambda>tmp. None),
      tmp_Read = (\<lambda>body. Inr (take 512 body)),
      DetectContentType = (\<lambda>buf. ''image/jpeg''),
      ExtensionsByType = (\<lambda>mimeType. (None, [''.jpg''])),
      os_Rename = (\<lambda>old new. None)\<rparr>"

definition photo_world :: world where
  "photo_world =
     sound_only_world
       \<lparr>http_Get := (\<lambda>url. Inr \<lparr>StatusCode = 200, Status = ''200 OK'', Body = ''JFIF''\<rparr>)\<rparr>"

subsection \<open>The tabular stream source: \<^verbatim>\<open>Records\<close>\<close>

text \<open>
  \<^verbatim>\<open>log.Fatalf\<close> prints its message and ends the process, so a call either ends the
  process or returns a value to its caller.
\<close>

datatype 'a outcome = Fatal string | Returned 'a

text \<open>
  The header loop \<^verbatim>\<open>for i, f := range recs[0] { field[f] = i }\<close> over a fresh map:
  a later occurrence of a name overwrites an earlier one.
\<close>

definition header_fields :: "string list \<Rightarrow> (string \<rightharpoonup> nat)" where
  "header_fields hdr = fold (\<lambda>(i, f) field. field(f \<mapsto> i)) (enumerate 0 hdr) Map.empty"

text \<open>
  The Go index expression \<^verbatim>\<open>field[key]\<close> on a \<^verbatim>\<open>map[string]int\<close>: a key that is not
  in the map reads as the zero value of \<^verbatim>\<open>int\<close>.
\<close>

definition map_index :: "(string \<rightharpoonup> nat) \<Rightarrow> string \<Rightarrow> nat" where
  "map_index field key = (case field key of None \<Rightarrow> 0 | Some i \<Rightarrow> i)"

text \<open>
  The closure \<^verbatim>\<open>stringField\<close>:
  \<^verbatim>\<open>if f := field[key]; f < len(rec) { return rec[f] }; return ""\<close>.
  The read \<open>rec ! f\<close> happens under the bound check only.
\<close>

definition stringField :: "(string \<rightharpoonup> nat) \<Rightarrow> string list \<Rightarrow> string \<Rightarrow> string" where
  "stringField field rec key =
     (let f = map_index field key in if f < length rec then rec ! f else [])"

text \<open>The composite literal passed to \<^verbatim>\<open>yield\<close> for the row \<open>rec\<close> at slice index \<open>i\<close>.\<close>

definition decode_row :: "(string \<rightharpoonup> nat) \<Rightarrow> nat \<Rightarrow> string list \<Rightarrow> Record" where
  "decode_row field i rec =
     \<lparr>Line = i + 2,
      SubmissionID = stringField field rec ''Submission ID'',
      CommonName = stringField field rec ''Common Name'',
      ScientificName = stringField field rec ''Scientific Name'',
      TaxonomicOrder = stringField field rec ''Taxonomic Order'',
      Count = stringField field rec ''Count'',
      StateProvince = stringField field rec ''State/Province'',
      County = stringField field rec ''County'',
      LocationID = stringField field rec ''Location ID'',
      Location = stringField field rec ''Location'',
      Latitude = stringField field rec ''Latitude'',
      Longitude = stringField field rec ''Longitude'',
      Date = stringField field rec ''Date'',
      Time = stringField field rec ''Time'',
      Protocol = stringField field rec ''Protocol'',
      DurationMin = stringField field rec ''Duration (Min)'',
      AllObsReported = stringField field rec ''All Obs Reported'',
      DistanceTraveledKm = stringField field rec ''Distance Traveled (km)'',
      AreaCoveredHa = stringField field rec ''Area Covered (ha)'',
      NumberOfObservers = stringField field rec ''Number of Observers'',
      BreedingCode = stringField field rec ''Breeding Code'',
      ObservationDetails = stringField field rec ''Observation Details'',
      ChecklistComments = stringField field rec ''Checklist Comments'',
      MLCatalogNumbers = stringField field rec ''ML Catalog Numbers''\<rparr>"

text \<open>
  The returned iterator walks \<^verbatim>\<open>recs[1:]\<close> in order and yields one record per row; a
  consumer that stops early sees a prefix of this list.
\<close>

definition record_seq :: "string list list \<Rightarrow> Record list" where
  "record_seq recs =
     (let field = header_fields (hd recs)
      in map (\<lambda>(i, rec). decode_row field i rec) (enumerate 0 (tl recs)))"

text \<open>
  \<^verbatim>\<open>func Records(filename string) (iter.Seq[Record], error)\<close>. The file system and the
  CSV reader are the two parameters: \<open>os_Open\<close> gives the error text or the opened file,
  \<open>ReadAll\<close> gives the error text or all rows of that file. The second component of a
  returned pair is the Go \<^verbatim>\<open>error\<close> result, \<open>None\<close> for \<^verbatim>\<open>nil\<close>. \<open>hd recs\<close> in
  \<open>record_seq\<close> is read after the test \<^verbatim>\<open>len(recs) < 1\<close> only.
\<close>

definition Records ::
  "(string \<Rightarrow> string + 'f) \<Rightarrow> ('f \<Rightarrow> string + string list list) \<Rightarrow> string
     \<Rightarrow> (Record list \<times> string option) outcome" where
  "Records os_Open ReadAll filename =
     (case os_Open filename of
        Inl err \<Rightarrow> Fatal (''ebird.Records('' @ filename @ ''): '' @ err)
      | Inr f \<Rightarrow>
          (case ReadAll f of
             Inl err \<Rightarrow> Fatal (''Error reading CSV records from '' @ filename @ '': '' @ err)
           | Inr recs \<Rightarrow>
               if length recs < 1 then Fatal (''No records found in '' @ filename)
               else Returned (record_seq recs, None)))"

text \<open>
  A concrete export: a header that names three columns only, one data row, and a file
  system that holds this file and an empty one. The opened file is modelled by its rows,
  which the CSV reader hands back.
\<close>

definition short_header :: "string list" where
  "short_header = [''Submission ID'', ''Common Name'', ''Scientific Name'']"

definition mallard_row :: "string list" where
  "mallard_row = [''S193523301'', ''Mallard'', ''Anas platyrhynchos'']"

definition one_file :: "string \<Rightarrow> string + string list list" where
  "one_file name =
     (if name = ''MyEBirdData.csv'' then Inr [short_header, mallard_row]
      else if name = ''empty.csv'' then Inr []
      else Inl ''no such file'')"

definition csv_rows :: "string list list \<Rightarrow> string + string list list" where
  "csv_rows f = Inr f"

section \<open>Package inat: paginated retrieval\<close>

text \<open>
  The decoded page \<^verbatim>\<open>Observations\<close>: the total the server reports and the items of the
  page. \<^verbatim>\<open>TotalResults\<close> is a Go \<^verbatim>\<open>int\<close> that is only compared, never computed with,
  so \<^typ>\<open>int\<close> holds every value it can take. The item type is a parameter.
\<close>

record 'a Observations =
  TotalResults :: int
  Results :: "'a list"

text \<open>
  The loop \<^verbatim>\<open>for page := 1; ; page++\<close> of \<^verbatim>\<open>DownloadObservations\<close>, from the state
  \<open>(page, results, totalResults)\<close>. The remote side is \<open>fetch\<close>: for the request of page
  \<open>page\<close> it gives the decoded page, or the text of the error that \<^verbatim>\<open>url.Parse\<close>,
  \<^verbatim>\<open>http.NewRequest\<close>, \<^verbatim>\<open>roundTrip\<close> or \<^verbatim>\<open>json.Unmarshal\<close> reported, which goes to
  \<^verbatim>\<open>log.Fatal\<close>. The loop has no bound of its own, so it is a partial function: \<open>None\<close>
  is a loop that never ends. Next to the results the model returns the page number at
  which the loop stopped, which is the number of requests issued.
\<close>

partial_function (option) page_loop ::
  "(nat \<Rightarrow> string + 'a Observations) \<Rightarrow> nat \<Rightarrow> 'a list \<Rightarrow> int
     \<Rightarrow> ('a list \<times> nat) outcome option" where
  "page_loop fetch page results totalResults =
     (case fetch page of
        Inl err \<Rightarrow> Some (Fatal err)
      | Inr observations \<Rightarrow>
          if TotalResults observations = 0 then Some (Returned (results, page))
          else
            let totalResults' =
                  (if totalResults = 0 then TotalResults observations else totalResults);
                results' = results @ Results observations
            in if int (length results') \<ge> totalResults' then Some (Returned (results', page))
               else page_loop fetch (page + 1) results' totalResults')"

text \<open>\<^verbatim>\<open>var results []Result; var totalResults int; for page := 1; ...\<close>\<close>

definition DownloadObservations ::
  "(nat \<Rightarrow> string + 'a Observations) \<Rightarrow> ('a list \<times> nat) outcome option" where
  "DownloadObservations fetch = page_loop fetch 1 [] 0"

text \<open>\<^verbatim>\<open>const perPage = 200\<close>, the page size every request asks for.\<close>

definition perPage :: nat where
  "perPage = 200"

text \<open>
  Vocabulary for statements about a run: the items page \<open>j\<close> serves, the items of all
  pages before page \<open>k\<close> in order, and the total that page 1 reports (the value the loop
  captures in \<^verbatim>\<open>totalResults\<close>).
\<close>

definition page_results :: "(nat \<Rightarrow> string + 'a Observations) \<Rightarrow> nat \<Rightarrow> 'a list" where
  "page_results fetch j = (case fetch j of Inl err \<Rightarrow> [] | Inr obs \<Rightarrow> Results obs)"

definition pages_before :: "(nat \<Rightarrow> string + 'a Observations) \<Rightarrow> nat \<Rightarrow> 'a list" where
  "pages_before fetch k = concat (map (page_results fetch) [1..<k])"

definition first_total :: "(nat \<Rightarrow> string + 'a Observations) \<Rightarrow> int" where
  "first_total fetch = (case fetch 1 of Inl err \<Rightarrow> 0 | Inr obs \<Rightarrow> TotalResults obs)"

text \<open>
  Concrete servers. \<open>stalled_fetch\<close> reports a total of two, serves one item on page 1
  and nothing afterwards. \<open>no_pages\<close> reports a total of zero. \<open>two_pages\<close> reports 250
  and serves 200 items and then 50. \<open>zero_on_page_3\<close> reports five, serves three items
  over two pages and then reports a total of zero.
\<close>

definition stalled_fetch :: "nat \<Rightarrow> string + nat Observations" where
  "stalled_fetch page = Inr \<lparr>TotalResults = 2, Results = (if page = 1 then [0] else [])\<rparr>"

definition no_pages :: "nat \<Rightarrow> string + nat Observations" where
  "no_pages page = Inr \<lparr>TotalResults = 0, Results = []\<rparr>"

definition two_pages :: "nat \<Rightarrow> string + nat Observations" where
  "two_pages page =
     (if page = 1 then Inr \<lparr>TotalResults = 250, Results = replicate 200 7\<rparr>
      else if page = 2 then Inr \<lparr>TotalResults = 250, Results = replicate 50 8\<rparr>
      else Inl ''no such page'')"

definition zero_on_page_3 :: "nat \<Rightarrow> string + nat Observations" where
  "zero_on_page_3 page =
     (if page = 1 then Inr \<lparr>TotalResults = 5, Results = [1, 2]\<rparr>
      else if page = 2 then Inr \<lparr>TotalResults = 5, Results = [3]\<rparr>
      else Inr \<lparr>TotalResults = 0, Results = []\<rparr>)"

text \<open>
  Where a run stops. Page \<open>j\<close> lets the loop go on when its request succeeds, it reports
  a nonzero total and the count accumulated up to and including it is still below the
  total captured on page 1; whether the page itself brought any item plays no part.
  \<open>stop_outcome\<close> is what the loop hands back when page \<open>k\<close> is the page that stops it.
\<close>

definition page_continues :: "(nat \<Rightarrow> string + 'a Observations) \<Rightarrow> nat \<Rightarrow> bool" where
  "page_continues fetch j =
     (case fetch j of
        Inl err \<Rightarrow> False
      | Inr obs \<Rightarrow> TotalResults obs \<noteq> 0
                  \<and> int (length (pages_before fetch (Suc j))) < first_total fetch)"

definition stop_outcome :: "(nat \<Rightarrow> string + 'a Observations) \<Rightarrow> nat \<Rightarrow> ('a list \<times> nat) outcome" where
  "stop_outcome fetch k =
     (case fetch k of
        Inl err \<Rightarrow> Fatal err
      | Inr obs \<Rightarrow> if TotalResults obs = 0 then Returned (pages_before fetch k, k)
                  else Returned (pages_before fetch (Suc k), k))"

text \<open>
  Three more servers. \<open>hiccup_fetch\<close> reports a total of two and serves one item, then
  an empty page, then the second item. \<open>failing_fetch\<close> serves one page and then fails.
  \<open>empty_fetch\<close> reports a total of one and never serves an item.
\<close>

definition hiccup_fetch :: "nat \<Rightarrow> string + nat Observations" where
  "hiccup_fetch page =
     Inr \<lparr>TotalResults = 2,
          Results = (if page = 1 then [10] else if page = 2 then [] else [11])\<rparr>"

definition failing_fetch :: "nat \<Rightarrow> string + nat Observations" where
  "failing_fetch page =
     (if page = 1 then Inr \<lparr>TotalResults = 5, Results = [1]\<rparr> else Inl ''timeout'')"

definition empty_fetch :: "nat \<Rightarrow> string + nat Observations" where
  "empty_fetch page = Inr \<lparr>TotalResults = 1, Results = []\<rparr>"

section \<open>Theorems\<close>

text \<open>
  C8. For every record, the observation identifier derived from it is valid exactly when
  both the submission identifier and the scientific name of the record are non-empty.
\<close>

theorem Valid_iff_both_nonempty:
  "Valid (ObservationID_of r) = (SubmissionID r \<noteq> '''' \<and> ScientificName r \<noteq> '''')"
  by (simp add: Valid_def ObservationID_of_def)

text \<open>
  C9. For every record, the checklist URL is the fixed eBird prefix followed by the
  submission identifier.
\<close>

theorem URL_is_prefix_plus_SubmissionID:
  "URL r = ''https://ebird.org/checklist/'' @ SubmissionID r"
  by (simp add: URL_def)

subsection \<open>Paginated retrieval\<close>

text \<open>One turn of the loop, in its three outcomes.\<close>

lemma page_loop_zero_total:
  "fetch page = Inr obs \<Longrightarrow> TotalResults obs = 0
     \<Longrightarrow> page_loop fetch page results totalResults = Some (Returned (results, page))"
  by (subst page_loop.simps) simp

lemma page_loop_continue:
  assumes "fetch page = Inr obs" "TotalResults obs \<noteq> 0"
    and "t' = (if t = 0 then TotalResults obs else t)"
    and "int (length (rs @ Results obs)) < t'"
  shows "page_loop fetch page rs t = page_loop fetch (Suc page) (rs @ Results obs) t'"
  using assms by (subst page_loop.simps) (simp add: Let_def)

lemma page_loop_stop:
  assumes "fetch page = Inr obs" "TotalResults obs \<noteq> 0"
    and "t' = (if t = 0 then TotalResults obs else t)"
    and "t' \<le> int (length (rs @ Results obs))"
  shows "page_loop fetch page rs t = Some (Returned (rs @ Results obs, page))"
  using assms by (subst page_loop.simps) (simp add: Let_def)

lemma pages_before_Suc:
  "1 \<le> j \<Longrightarrow> pages_before fetch (Suc j) = pages_before fetch j @ page_results fetch j"
  by (simp add: pages_before_def)

text \<open>
  While every page so far reported a nonzero total and left the count below the captured
  total, the loop is at the next page with the pages so far accumulated.
\<close>

lemma page_loop_reaches:
  assumes run: "\<forall>j\<in>{1..<k}. \<exists>obs. fetch j = Inr obs \<and> TotalResults obs \<noteq> 0
                  \<and> int (length (pages_before fetch (Suc j))) < first_total fetch"
  shows "1 \<le> j \<Longrightarrow> j < k
     \<Longrightarrow> page_loop fetch 1 [] 0
           = page_loop fetch (Suc j) (pages_before fetch (Suc j)) (first_total fetch)"
proof (induction j)
  case 0
  then show ?case by simp
next
  case (Suc j)
  from run Suc.prems obtain obs where
    obs: "fetch (Suc j) = Inr obs" "TotalResults obs \<noteq> 0"
      "int (length (pages_before fetch (Suc (Suc j)))) < first_total fetch"
    by (metis atLeastLessThan_iff)
  have pr: "page_results fetch (Suc j) = Results obs"
    by (simp add: page_results_def obs(1))
  show ?case
  proof (cases "j = 0")
    case True
    have ft: "first_total fetch = TotalResults obs"
      using obs(1) True by (simp add: first_total_def)
    have pb: "pages_before fetch (Suc (Suc 0)) = [] @ Results obs"
      using pr True by (simp add: pages_before_def)
    have "page_loop fetch (Suc 0) [] 0
            = page_loop fetch (Suc (Suc 0)) ([] @ Results obs) (TotalResults obs)"
      using obs True ft pb by (intro page_loop_continue[of fetch "Suc 0" obs]) simp_all
    then show ?thesis using True ft pb by simp
  next
    case False
    then have j: "1 \<le> j" "j < k" using Suc.prems by simp_all
    have ne: "first_total fetch \<noteq> 0"
    proof -
      from run j obtain o1 where "fetch 1 = Inr o1 \<and> TotalResults o1 \<noteq> 0"
        by (metis atLeastLessThan_iff le_less_trans less_irrefl not_le)
      then show ?thesis by (simp add: first_total_def)
    qed
    have pb: "pages_before fetch (Suc (Suc j)) = pages_before fetch (Suc j) @ Results obs"
      using pages_before_Suc[of "Suc j" fetch] pr by simp
    have "page_loop fetch (Suc j) (pages_before fetch (Suc j)) (first_total fetch)
            = page_loop fetch (Suc (Suc j)) (pages_before fetch (Suc j) @ Results obs)
                (first_total fetch)"
      using obs ne pb by (intro page_loop_continue[of fetch "Suc j" obs]) simp_all
    with Suc.IH[OF j] pb show ?thesis by simp
  qed
qed

lemma page_continues_iff:
  "page_continues fetch j
     = (\<exists>obs. fetch j = Inr obs \<and> TotalResults obs \<noteq> 0
            \<and> int (length (pages_before fetch (Suc j))) < first_total fetch)"
  by (cases "fetch j") (simp_all add: page_continues_def)

lemma page_loop_fatal:
  "fetch page = Inl err \<Longrightarrow> page_loop fetch page results totalResults = Some (Fatal err)"
  by (subst page_loop.simps) simp

lemma pages_before_1: "pages_before fetch (Suc 0) = []"
  by (simp add: pages_before_def)

text \<open>The state in which the loop arrives at page \<open>k\<close> when no earlier page stopped it.\<close>

lemma page_loop_arrives:
  assumes run: "\<forall>j\<in>{1..<k}. page_continues fetch j" and k: "1 \<le> k"
  shows "page_loop fetch 1 [] 0
           = page_loop fetch k (pages_before fetch k) (if k = 1 then 0 else first_total fetch)"
proof (cases "k = 1")
  case True
  then show ?thesis by (simp add: pages_before_1)
next
  case False
  with k obtain j where j: "k = Suc j" "1 \<le> j" "j < k" by (cases k) auto
  from run have "\<forall>j\<in>{1..<k}. \<exists>obs. fetch j = Inr obs \<and> TotalResults obs \<noteq> 0
                  \<and> int (length (pages_before fetch (Suc j))) < first_total fetch"
    by (simp add: page_continues_iff)
  from page_loop_reaches[OF this j(2,3)] j(1) False show ?thesis by simp
qed

lemma first_total_nonzero:
  "page_continues fetch 1 \<Longrightarrow> first_total fetch \<noteq> 0"
  by (auto simp: page_continues_iff first_total_def)

text \<open>One turn of the loop at page \<open>k\<close>, from the state of arrival.\<close>

lemma page_loop_turn_stops:
  assumes run: "\<forall>j\<in>{1..<k}. page_continues fetch j" and k: "1 \<le> k"
    and stop: "\<not> page_continues fetch k"
  shows "page_loop fetch k (pages_before fetch k) (if k = 1 then 0 else first_total fetch)
           = Some (stop_outcome fetch k)"
proof (cases "fetch k")
  case (Inl e)
  then show ?thesis by (simp add: page_loop_fatal stop_outcome_def)
next
  case (Inr obs)
  show ?thesis
  proof (cases "TotalResults obs = 0")
    case True
    with Inr show ?thesis by (simp add: page_loop_zero_total stop_outcome_def)
  next
    case False
    have pr: "page_results fetch k = Results obs"
      using Inr by (simp add: page_results_def)
    have pb: "pages_before fetch (Suc k) = pages_before fetch k @ Results obs"
      using pages_before_Suc[OF k, of fetch] pr by simp
    from stop Inr False have le: "first_total fetch \<le> int (length (pages_before fetch (Suc k)))"
      by (simp add: page_continues_def)
    have t: "first_total fetch
               = (if (if k = 1 then 0 else first_total fetch) = 0 then TotalResults obs
                  else (if k = 1 then 0 else first_total fetch))"
    proof (cases "k = 1")
      case True
      with Inr show ?thesis by (simp add: first_total_def)
    next
      case k1: False
      with k run have "page_continues fetch 1" by simp
      then have "first_total fetch \<noteq> 0" by (rule first_total_nonzero)
      with k1 show ?thesis by simp
    qed
    have "page_loop fetch k (pages_before fetch k) (if k = 1 then 0 else first_total fetch)
            = Some (Returned (pages_before fetch k @ Results obs, k))"
      using Inr False t le[unfolded pb] by (rule page_loop_stop)
    with Inr False pb show ?thesis by (simp add: stop_outcome_def)
  qed
qed

text \<open>With no stop page at all, no state of arrival yields a result.\<close>

lemma page_loop_never_returns:
  assumes never: "\<forall>j\<ge>1. page_continues fetch j"
    and res: "page_loop f p rs t = Some y"
  shows "\<not> (f = fetch \<and> 1 \<le> p \<and> rs = pages_before fetch p
            \<and> t = (if p = 1 then 0 else first_total fetch))"
proof (rule page_loop.raw_induct
    [where P = "\<lambda>f p rs t y. \<not> (f = fetch \<and> 1 \<le> p \<and> rs = pages_before fetch p
            \<and> t = (if p = 1 then 0 else first_total fetch))", OF _ res], goal_cases)
  case (1 loop f page results totalResults r)
  show ?case
  proof
    assume inv: "f = fetch \<and> 1 \<le> page \<and> results = pages_before fetch page
            \<and> totalResults = (if page = 1 then 0 else first_total fetch)"
    from never inv have c: "page_continues fetch page" by simp
    then obtain obs where obs: "fetch page = Inr obs" "TotalResults obs \<noteq> 0"
        "int (length (pages_before fetch (Suc page))) < first_total fetch"
      by (auto simp: page_continues_iff)
    have pb: "pages_before fetch (Suc page) = pages_before fetch page @ Results obs"
      using pages_before_Suc[of page fetch] inv obs(1) by (simp add: page_results_def)
    have t: "(if totalResults = 0 then TotalResults obs else totalResults) = first_total fetch"
    proof (cases "page = 1")
      case True
      with inv obs(1) show ?thesis by (simp add: first_total_def)
    next
      case False
      from never have "page_continues fetch 1" by simp
      then have "first_total fetch \<noteq> 0" by (rule first_total_nonzero)
      with inv False show ?thesis by simp
    qed
    from 1(2) inv obs t pb
    have "loop fetch (page + 1) (pages_before fetch (Suc page)) (first_total fetch) = Some r"
      by (simp add: Let_def)
    from 1(1)[OF this] inv show False by simp
  qed
qed

text \<open>From the second page on, the stalled server keeps the loop in the same state.\<close>

lemma stalled_fetch_no_result:
  assumes "page_loop f p rs t = Some y"
  shows "\<not> (f = stalled_fetch \<and> 2 \<le> p \<and> length rs = 1 \<and> t = 2)"
proof (rule page_loop.raw_induct
    [where P = "\<lambda>f p rs t y. \<not> (f = stalled_fetch \<and> 2 \<le> p \<and> length rs = 1 \<and> t = 2)",
      OF _ assms], goal_cases)
  case (1 loop fetch page results totalResults r)
  show ?case
  proof
    assume inv: "fetch = stalled_fetch \<and> 2 \<le> page \<and> length results = 1 \<and> totalResults = 2"
    with 1(2) have "loop fetch (page + 1) results 2 = Some r"
      by (simp add: stalled_fetch_def)
    from 1(1)[OF this] inv show False by simp
  qed
qed

text \<open>
  C2, as stated, fails: the stalled server reports a total of two, serves one item and
  then empty pages, and the loop never returns.
\<close>

theorem stalled_server_loops_forever: "DownloadObservations stalled_fetch = None"
proof (cases "DownloadObservations stalled_fetch")
  case None
  then show ?thesis .
next
  case (Some y)
  have "DownloadObservations stalled_fetch = page_loop stalled_fetch 2 [0] 2"
    unfolding DownloadObservations_def
    by (subst page_loop.simps) (simp add: stalled_fetch_def numeral_2_eq_2)
  with Some stalled_fetch_no_result[of stalled_fetch 2 "[0]" 2 y] show ?thesis by simp
qed

lemma hiccup_pages:
  "pages_before hiccup_fetch (Suc 1) = [10]" "pages_before hiccup_fetch (Suc 2) = [10]"
  "pages_before hiccup_fetch (Suc 3) = [10, 11]" "first_total hiccup_fetch = 2"
  by (simp_all add: pages_before_def page_results_def hiccup_fetch_def first_total_def upt_rec)

text \<open>
  C2, amended. The retrieval stops at the first page that does not let the loop go on,
  and only there: at a page whose request fails it ends the process with that error, at
  a page that reports a total of zero it returns the results of the earlier pages, and
  at a page with which the accumulated count reaches or exceeds the total captured on
  page 1 it returns the results up to and including that page. A page that contributes
  no new result does not stop it. So the retrieval terminates exactly when some page
  stops it, and on every response sequence without such a page it runs forever.
\<close>

theorem DownloadObservations_stops_at_first_stop_page_only:
  "(1 \<le> k \<and> (\<forall>j\<in>{1..<k}. page_continues fetch j) \<and> \<not> page_continues fetch k
      \<longrightarrow> DownloadObservations fetch = Some (stop_outcome fetch k))
   \<and> ((\<forall>j\<ge>1. page_continues fetch j) \<longrightarrow> DownloadObservations fetch = None)
   \<and> ((\<exists>r. DownloadObservations fetch = Some r) = (\<exists>j\<ge>1. \<not> page_continues fetch j))"
proof -
  have stops: "DownloadObservations fetch = Some (stop_outcome fetch k)"
    if "1 \<le> k" "\<forall>j\<in>{1..<k}. page_continues fetch j" "\<not> page_continues fetch k" for k
    using page_loop_arrives[OF that(2,1)] page_loop_turn_stops[OF that(2,1,3)]
    by (simp add: DownloadObservations_def)
  have forever: "DownloadObservations fetch = None" if never: "\<forall>j\<ge>1. page_continues fetch j"
  proof (cases "DownloadObservations fetch")
    case None
    then show ?thesis .
  next
    case (Some y)
    then have "page_loop fetch 1 [] 0 = Some y" by (simp add: DownloadObservations_def)
    from page_loop_never_returns[OF never this] show ?thesis
      by (simp add: pages_before_1)
  qed
  have iff: "(\<exists>r. DownloadObservations fetch = Some r) = (\<exists>j\<ge>1. \<not> page_continues fetch j)"
  proof
    assume "\<exists>r. DownloadObservations fetch = Some r"
    with forever show "\<exists>j\<ge>1. \<not> page_continues fetch j" by fastforce
  next
    assume "\<exists>j\<ge>1. \<not> page_continues fetch j"
    then obtain j where j: "1 \<le> j \<and> \<not> page_continues fetch j" by blast
    define k where "k = (LEAST j. 1 \<le> j \<and> \<not> page_continues fetch j)"
    have k: "1 \<le> k \<and> \<not> page_continues fetch k"
      unfolding k_def using j by (rule LeastI)
    have "\<forall>i\<in>{1..<k}. page_continues fetch i"
    proof
      fix i assume i: "i \<in> {1..<k}"
      show "page_continues fetch i"
      proof (rule ccontr)
        assume "\<not> page_continues fetch i"
        with i have "1 \<le> i \<and> \<not> page_continues fetch i" by simp
        then have "k \<le> i" unfolding k_def by (rule Least_le)
        with i show False by simp
      qed
    qed
    with k stops[of k] show "\<exists>r. DownloadObservations fetch = Some r" by blast
  qed
  from stops forever iff show ?thesis by blast
qed

theorem DownloadObservations_stops_at_first_stop_page_only_witness:
  "DownloadObservations hiccup_fetch = Some (Returned ([10, 11], 3))
   \<and> DownloadObservations failing_fetch = Some (Fatal ''timeout'')
   \<and> DownloadObservations empty_fetch = None"
proof -
  have h: "\<forall>j\<in>{1..<3}. page_continues hiccup_fetch j"
  proof
    fix j :: nat assume "j \<in> {1..<3}"
    then have "j = 1 \<or> j = 2" by auto
    then show "page_continues hiccup_fetch j"
      using hiccup_pages by (auto simp: page_continues_def hiccup_fetch_def)
  qed
  have h3: "\<not> page_continues hiccup_fetch 3"
    using hiccup_pages by (simp add: page_continues_def hiccup_fetch_def)
  have f: "\<forall>j\<in>{1..<2}. page_continues failing_fetch j"
    by (auto simp: page_continues_def failing_fetch_def pages_before_def page_results_def
        first_total_def)
  have f2: "\<not> page_continues failing_fetch 2"
    by (simp add: page_continues_def failing_fetch_def)
  have e: "\<forall>j\<ge>1. page_continues empty_fetch j"
    by (simp add: page_continues_def empty_fetch_def pages_before_def page_results_def
        first_total_def)
  from DownloadObservations_stops_at_first_stop_page_only [of 3 hiccup_fetch] h h3 hiccup_pages
  have 1: "DownloadObservations hiccup_fetch = Some (Returned ([10, 11], 3))"
    by (simp add: stop_outcome_def hiccup_fetch_def)
  from DownloadObservations_stops_at_first_stop_page_only [of 2 failing_fetch] f f2
  have 2: "DownloadObservations failing_fetch = Some (Fatal ''timeout'')"
    by (simp add: stop_outcome_def failing_fetch_def)
  from DownloadObservations_stops_at_first_stop_page_only [of 1 empty_fetch] e
  have 3: "DownloadObservations empty_fetch = None" by blast
  from 1 2 3 show ?thesis by simp
qed

text \<open>
  C5. A first page that reports a total of zero ends the retrieval after one request with
  no results. A server that reports 250, serves a full page of 200 and then the
  remaining 50 is asked twice and all 250 results are returned.
\<close>

theorem pagination_zero_total_and_two_pages:
  "(fetch 1 = Inr p1 \<and> TotalResults p1 = 0
      \<longrightarrow> DownloadObservations fetch = Some (Returned ([], 1)))
   \<and> (fetch 1 = Inr p1 \<and> fetch 2 = Inr p2 \<and> TotalResults p1 = 250 \<and> TotalResults p2 = 250
        \<and> length (Results p1) = perPage \<and> length (Results p2) = 50
      \<longrightarrow> DownloadObservations fetch = Some (Returned (Results p1 @ Results p2, 2))
          \<and> length (Results p1 @ Results p2) = 250)"
proof (intro conjI impI)
  assume "fetch 1 = Inr p1 \<and> TotalResults p1 = 0"
  then show "DownloadObservations fetch = Some (Returned ([], 1))"
    unfolding DownloadObservations_def by (subst page_loop.simps) simp
next
  assume a: "fetch 1 = Inr p1 \<and> fetch 2 = Inr p2 \<and> TotalResults p1 = 250 \<and> TotalResults p2 = 250
        \<and> length (Results p1) = perPage \<and> length (Results p2) = 50"
  then have "page_loop fetch 1 [] 0 = page_loop fetch (Suc 1) ([] @ Results p1) 250"
    by (intro page_loop_continue[of fetch 1 p1 250 0]) (simp_all add: perPage_def)
  also have "\<dots> = page_loop fetch 2 (Results p1) 250"
    by (simp add: numeral_2_eq_2)
  also have "\<dots> = Some (Returned (Results p1 @ Results p2, 2))"
    using a by (intro page_loop_stop[of fetch 2 p2 250 250]) (simp_all add: perPage_def)
  finally show "DownloadObservations fetch = Some (Returned (Results p1 @ Results p2, 2))"
    by (simp add: DownloadObservations_def)
  from a show "length (Results p1 @ Results p2) = 250"
    by (simp add: perPage_def)
qed

theorem pagination_zero_total_and_two_pages_witness:
  "DownloadObservations no_pages = Some (Returned ([], 1))
   \<and> DownloadObservations two_pages = Some (Returned (replicate 200 7 @ replicate 50 8, 2))"
  using pagination_zero_total_and_two_pages
          [of no_pages "\<lparr>TotalResults = 0, Results = []\<rparr>"]
        pagination_zero_total_and_two_pages
          [of two_pages "\<lparr>TotalResults = 250, Results = replicate 200 7\<rparr>"
              "\<lparr>TotalResults = 250, Results = replicate 50 8\<rparr>"]
  by (simp add: no_pages_def two_pages_def perPage_def)

text \<open>
  C7. If the pages before page \<open>k\<close> all report a nonzero total and leave the accumulated
  count below the total captured on page 1, and page \<open>k\<close> reports a total of zero, the
  retrieval stops at page \<open>k\<close> and returns the results of the pages before it.
\<close>

theorem zero_total_on_later_page_stops:
  assumes k: "2 \<le> k"
    and run: "\<forall>j\<in>{1..<k}. \<exists>obs. fetch j = Inr obs \<and> TotalResults obs \<noteq> 0
                  \<and> int (length (pages_before fetch (Suc j))) < first_total fetch"
    and z: "fetch k = Inr obs0" "TotalResults obs0 = 0"
  shows "DownloadObservations fetch = Some (Returned (pages_before fetch k, k))"
proof -
  from k obtain j where j: "k = Suc j" "1 \<le> j" "j < k"
    by (cases k) auto
  from page_loop_reaches[OF run j(2,3)] j(1)
  have "page_loop fetch 1 [] 0 = page_loop fetch k (pages_before fetch k) (first_total fetch)"
    by simp
  also have "\<dots> = Some (Returned (pages_before fetch k, k))"
    using z by (rule page_loop_zero_total)
  finally show ?thesis by (simp add: DownloadObservations_def)
qed

theorem zero_total_on_later_page_stops_witness:
  "DownloadObservations zero_on_page_3 = Some (Returned ([1, 2, 3], 3))"
proof -
  have pb: "pages_before zero_on_page_3 (Suc 1) = [1, 2]"
    "pages_before zero_on_page_3 (Suc 2) = [1, 2, 3]"
    "pages_before zero_on_page_3 3 = [1, 2, 3]"
    by (simp_all add: pages_before_def page_results_def zero_on_page_3_def upt_rec)
  have ft: "first_total zero_on_page_3 = 5"
    by (simp add: first_total_def zero_on_page_3_def)
  have run: "\<forall>j\<in>{1..<3}. \<exists>obs. zero_on_page_3 j = Inr obs \<and> TotalResults obs \<noteq> 0
                  \<and> int (length (pages_before zero_on_page_3 (Suc j))) < first_total zero_on_page_3"
  proof
    fix j :: nat
    assume "j \<in> {1..<3}"
    then have "j = 1 \<or> j = 2" by auto
    then show "\<exists>obs. zero_on_page_3 j = Inr obs \<and> TotalResults obs \<noteq> 0
                  \<and> int (length (pages_before zero_on_page_3 (Suc j))) < first_total zero_on_page_3"
      using pb ft by (auto simp: zero_on_page_3_def)
  qed
  from zero_total_on_later_page_stops
         [of 3 zero_on_page_3 "\<lparr>TotalResults = 0, Results = []\<rparr>", OF _ run] pb
  show ?thesis by (simp add: zero_on_page_3_def)
qed

subsection \<open>The tabular stream source\<close>

lemma header_fields_short_header:
  "header_fields short_header
     = [''Submission ID'' \<mapsto> 0, ''Common Name'' \<mapsto> 1, ''Scientific Name'' \<mapsto> 2]"
  by (simp add: header_fields_def short_header_def enumerate_eq_zip upt_rec numeral_2_eq_2)

text \<open>
  C1. The claim asks for the empty string in every field whose column name is not in the
  header. Here the header names no column \<^verbatim>\<open>ML Catalog Numbers\<close>, and the decoded
  record carries the submission identifier in that field: the lookup of an absent name
  reads index 0, which passes the bound check on every non-empty row.
\<close>

theorem absent_column_reads_first_cell:
  "header_fields short_header ''ML Catalog Numbers'' = None
   \<and> map MLCatalogNumbers (record_seq [short_header, mallard_row]) = [''S193523301'']"
  by (simp add: record_seq_def header_fields_short_header decode_row_def stringField_def
      map_index_def mallard_row_def)

text \<open>
  C10. A call of \<^verbatim>\<open>Records\<close> that returns to its caller returns a nil error; a file
  that cannot be opened, a CSV reader error and a file without rows each end the process
  instead.
\<close>

theorem Records_returns_nil_error_or_is_fatal:
  "(\<forall>seq err. Records os_Open ReadAll filename = Returned (seq, err) \<longrightarrow> err = None)
   \<and> (\<forall>e. os_Open filename = Inl e \<longrightarrow> (\<exists>msg. Records os_Open ReadAll filename = Fatal msg))
   \<and> (\<forall>f e. os_Open filename = Inr f \<and> ReadAll f = Inl e
         \<longrightarrow> (\<exists>msg. Records os_Open ReadAll filename = Fatal msg))
   \<and> (\<forall>f. os_Open filename = Inr f \<and> ReadAll f = Inr []
         \<longrightarrow> (\<exists>msg. Records os_Open ReadAll filename = Fatal msg))"
  by (auto simp: Records_def split: sum.splits if_splits)

theorem Records_returns_nil_error_or_is_fatal_witness:
  "Records one_file csv_rows ''MyEBirdData.csv''
     = Returned (record_seq [short_header, mallard_row], None)
   \<and> (\<exists>msg. Records one_file csv_rows ''missing.csv'' = Fatal msg)
   \<and> (\<exists>msg. Records one_file csv_rows ''empty.csv'' = Fatal msg)"
  using Records_returns_nil_error_or_is_fatal [of one_file csv_rows "''MyEBirdData.csv''"]
        Records_returns_nil_error_or_is_fatal [of one_file csv_rows "''missing.csv''"]
        Records_returns_nil_error_or_is_fatal [of one_file csv_rows "''empty.csv''"]
  by (simp add: Records_def one_file_def csv_rows_def)

subsection \<open>Timestamp resolution\<close>

text \<open>Digits, and numbers written on two and four digits, as \<^verbatim>\<open>getnum\<close> and \<^verbatim>\<open>atoi\<close> read them.\<close>

lemma of_char_digit_char:
  assumes "k < 10"
  shows "(of_char (digit_char k) :: nat) = 48 + k"
proof -
  from assms consider "k = 0" | "k = 1" | "k = 2" | "k = 3" | "k = 4"
    | "k = 5" | "k = 6" | "k = 7" | "k = 8" | "k = 9"
    by atomize_elim arith
  then show ?thesis by cases (simp_all add: digit_char_def)
qed

lemma is_digit_digit_char: "k < 10 \<Longrightarrow> is_digit (digit_char k)"
  by (simp add: is_digit_def of_char_digit_char)

lemma digit_val_digit_char: "k < 10 \<Longrightarrow> digit_val (digit_char k) = int k"
  by (simp add: digit_val_def of_char_digit_char)

lemma digit_char_neq:
  assumes "k < 10" "\<not> is_digit c"
  shows "digit_char k \<noteq> c"
  using assms is_digit_digit_char by blast

lemma not_digit_chars:
  "\<not> is_digit CHR ''/''" "\<not> is_digit CHR ''-''" "\<not> is_digit CHR '' ''" "\<not> is_digit CHR '':''"
  by (simp_all add: is_digit_def)

lemma two_digits: "int (n div 10) * 10 + int (n mod 10) = int n"
proof -
  have "n div 10 * 10 + n mod 10 = n" by simp
  then have "int (n div 10 * 10 + n mod 10) = int n" by (rule arg_cong)
  then show ?thesis by (simp only: of_nat_add of_nat_mult of_nat_numeral)
qed

lemma getnum_pad2: "n < 100 \<Longrightarrow> getnum (pad2 n @ rest) fixed = Some (int n, rest)"
proof -
  assume n: "n < 100"
  then have a: "n div 10 < 10" "n mod 10 < 10" by simp_all
  with two_digits[of n] show ?thesis
    by (simp add: pad2_def is_digit_digit_char digit_val_digit_char)
qed

lemma getnum_one_digit_fixed:
  "k < 10 \<Longrightarrow> \<not> is_digit c \<Longrightarrow> getnum (digit_char k # c # rest) True = None"
  by (simp add: is_digit_digit_char)

lemma list_all_is_digit_pad2: "n < 100 \<Longrightarrow> list_all is_digit (pad2 n)"
  by (simp add: pad2_def is_digit_digit_char)

lemma leading_value_pad2: "n < 100 \<Longrightarrow> foldl (\<lambda>x c. x * 10 + digit_val c) x0 (pad2 n) = x0 * 100 + int n"
proof -
  assume n: "n < 100"
  then have a: "n div 10 < 10" "n mod 10 < 10" by simp_all
  with two_digits[of n] show ?thesis
    by (simp add: pad2_def digit_val_digit_char)
qed

lemma leading_value_pad4: "y < 10000 \<Longrightarrow> leading_value (pad4 y) = int y"
proof -
  assume y: "y < 10000"
  then have a: "y div 100 < 100" "y mod 100 < 100" by simp_all
  have "y div 100 * 100 + y mod 100 = y" by simp
  then have "int (y div 100 * 100 + y mod 100) = int y" by (rule arg_cong)
  then have "int (y div 100) * 100 + int (y mod 100) = int y"
    by (simp only: of_nat_add of_nat_mult of_nat_numeral)
  then show ?thesis
    by (simp add: leading_value_def pad4_def leading_value_pad2[OF a(1)] leading_value_pad2[OF a(2)])
qed

lemma hd_pad4: "hd (pad4 y @ rest) = digit_char (y div 100 div 10)"
  by (simp add: pad4_def pad2_def)

lemma length_pad4: "length (pad4 y) = 4"
  by (simp add: pad4_def pad2_def)

lemma atoi_pad4: "y < 10000 \<Longrightarrow> atoi (pad4 y) = Some (int y)"
proof -
  assume y: "y < 10000"
  then have a: "y div 100 < 100" "y mod 100 < 100" "y div 100 div 10 < 10" by simp_all
  have dg: "is_digit (hd (pad4 y))"
    using hd_pad4[of y "[]"] is_digit_digit_char[OF a(3)] by simp
  have sign: "hd (pad4 y) \<noteq> CHR ''-''" "hd (pad4 y) \<noteq> CHR ''+''"
    using dg by (auto simp: is_digit_def)
  have all: "list_all is_digit (pad4 y)"
    using a by (simp add: pad4_def list_all_is_digit_pad2)
  show ?thesis
    using sign all leading_value_pad4[OF y] by (simp add: atoi_def Let_def)
qed

lemma parse_LongYear_pad4:
  "y < 10000 \<Longrightarrow> parse_std stdLongYear st (pad4 y @ rest) = Inr (st\<lparr>p_year := int y\<rparr>, rest)"
proof -
  assume y: "y < 10000"
  then have "y div 100 div 10 < 10" by simp
  then have hd: "is_digit (hd (pad4 y @ rest))"
    by (simp only: hd_pad4 is_digit_digit_char)
  show ?thesis using length_pad4[of y] hd atoi_pad4[OF y] by simp
qed

lemma skip_char: "c \<noteq> CHR '' '' \<Longrightarrow> skip (c # rest) [c] = Some rest"
  by simp

lemma slash_neq_digit_char: "k < 10 \<Longrightarrow> CHR ''/'' \<noteq> digit_char k"
  using digit_char_neq[OF _ not_digit_chars(1)] by metis

lemma slash_notin_pad2: "n < 100 \<Longrightarrow> CHR ''/'' \<notin> set (pad2 n)"
  by (simp add: pad2_def slash_neq_digit_char)

lemma slash_notin_iso_date:
  assumes "y < 10000" "m < 100" "d < 100"
  shows "CHR ''/'' \<notin> set (iso_date y m d)"
proof -
  from assms(1) have a: "y div 100 < 100" "y mod 100 < 100" by simp_all
  have "CHR ''/'' \<notin> set (pad4 y)"
    using slash_notin_pad2[OF a(1)] slash_notin_pad2[OF a(2)] by (simp add: pad4_def)
  with slash_notin_pad2[OF assms(2)] slash_notin_pad2[OF assms(3)] show ?thesis
    by (simp add: iso_date_def)
qed

text \<open>One chunk of a layout at a time, on formatted input.\<close>

lemma parse_chunks_step:
  "skip val prefix = Some val' \<Longrightarrow> parse_std s st val' = Inr (st', val'')
     \<Longrightarrow> parse_chunks ((prefix, s) # layout) st val = parse_chunks layout st' val''"
  by simp

lemma parse_chunks_fail:
  "skip val prefix = Some val' \<Longrightarrow> parse_std s st val' = Inl e
     \<Longrightarrow> parse_chunks ((prefix, s) # layout) st val = Inl e"
  by simp

lemma skip_nothing: "skip val [] = Some val"
  by simp

lemma skip_space_digit:
  "k < 10 \<Longrightarrow> skip (CHR '' '' # digit_char k # rest) '' '' = Some (digit_char k # rest)"
  using digit_char_neq[OF _ not_digit_chars(3), of k] by (simp add: cutspace_def)

lemma skip_space_pad2:
  "n < 100 \<Longrightarrow> skip (CHR '' '' # pad2 n @ rest) '' '' = Some (pad2 n @ rest)"
  using skip_space_digit[of "n div 10"] by (simp add: pad2_def)

lemma skip_space_meridiem: "skip (CHR '' '' # meridiem pm) '' '' = Some (meridiem pm)"
  by (simp add: meridiem_def cutspace_def)

lemma parse_ZeroMonth_pad2:
  "1 \<le> m \<Longrightarrow> m \<le> 12
     \<Longrightarrow> parse_std stdZeroMonth st (pad2 m @ rest) = Inr (st\<lparr>p_month := int m\<rparr>, rest)"
  by (simp add: getnum_pad2)

lemma parse_ZeroDay_pad2:
  "d < 100 \<Longrightarrow> parse_std stdZeroDay st (pad2 d @ rest) = Inr (st\<lparr>p_day := int d\<rparr>, rest)"
  by (simp add: getnum_pad2)

lemma parse_ZeroHour12_pad2:
  "h \<le> 12 \<Longrightarrow> parse_std stdZeroHour12 st (pad2 h @ rest) = Inr (st\<lparr>p_hour := int h\<rparr>, rest)"
  by (simp add: getnum_pad2)

lemma parse_ZeroHour12_one_digit:
  "h < 10 \<Longrightarrow> parse_std stdZeroHour12 st (digit_char h # CHR '':'' # rest) = Inl BadValue"
  by (simp add: getnum_one_digit_fixed not_digit_chars del: getnum.simps)

lemma parse_ZeroMinute_pad2:
  "mi < 60
     \<Longrightarrow> parse_std stdZeroMinute st (pad2 mi @ rest) = Inr (st\<lparr>p_min := int mi\<rparr>, rest)"
  by (simp add: getnum_pad2)

lemma parse_PM_meridiem:
  "parse_std stdPM st (meridiem pm)
     = Inr (if pm then st\<lparr>pmSet := True\<rparr> else st\<lparr>amSet := True\<rparr>, [])"
  by (simp add: meridiem_def)

lemma parse_iso_date_prefix:
  assumes "y < 10000" "1 \<le> m" "m \<le> 12" "d < 100"
  shows "parse_chunks layout_iso_date_time parsed_init (iso_date y m d @ rest)
         = parse_chunks [('' '', stdZeroHour12), ('':'', stdZeroMinute), ('' '', stdPM)]
             (parsed_init\<lparr>p_year := int y, p_month := int m, p_day := int d\<rparr>) rest"
proof -
  have v: "iso_date y m d @ rest = pad4 y @ CHR ''-'' # pad2 m @ CHR ''-'' # pad2 d @ rest"
    by (simp add: iso_date_def)
  have "parse_chunks layout_iso_date_time parsed_init (iso_date y m d @ rest)
        = parse_chunks [(''-'', stdZeroMonth), (''-'', stdZeroDay),
            ('' '', stdZeroHour12), ('':'', stdZeroMinute), ('' '', stdPM)]
            (parsed_init\<lparr>p_year := int y\<rparr>) (CHR ''-'' # pad2 m @ CHR ''-'' # pad2 d @ rest)"
    unfolding layout_iso_date_time_def v
    by (rule parse_chunks_step[OF skip_nothing parse_LongYear_pad4[OF assms(1)]])
  also have "\<dots> = parse_chunks [(''-'', stdZeroDay),
            ('' '', stdZeroHour12), ('':'', stdZeroMinute), ('' '', stdPM)]
            (parsed_init\<lparr>p_year := int y, p_month := int m\<rparr>) (CHR ''-'' # pad2 d @ rest)"
    by (rule parse_chunks_step[OF skip_char parse_ZeroMonth_pad2[OF assms(2,3)]]) simp
  also have "\<dots> = parse_chunks [('' '', stdZeroHour12), ('':'', stdZeroMinute), ('' '', stdPM)]
            (parsed_init\<lparr>p_year := int y, p_month := int m, p_day := int d\<rparr>) rest"
    by (rule parse_chunks_step[OF skip_char parse_ZeroDay_pad2[OF assms(4)]]) simp
  finally show ?thesis .
qed

lemma parse_clock_padded:
  assumes "1 \<le> h" "h \<le> 12" "mi < 60"
  shows "parse_chunks [('' '', stdZeroHour12), ('':'', stdZeroMinute), ('' '', stdPM)] st
           ('' '' @ clock_padded h mi pm)
         = Inr (if pm then st\<lparr>p_hour := int h, p_min := int mi, pmSet := True\<rparr>
                else st\<lparr>p_hour := int h, p_min := int mi, amSet := True\<rparr>)"
proof -
  have h: "h < 100" using assms by simp
  have v: "'' '' @ clock_padded h mi pm
             = CHR '' '' # pad2 h @ CHR '':'' # pad2 mi @ CHR '' '' # meridiem pm"
    by (simp add: clock_padded_def)
  have "parse_chunks [('' '', stdZeroHour12), ('':'', stdZeroMinute), ('' '', stdPM)] st
           ('' '' @ clock_padded h mi pm)
        = parse_chunks [('':'', stdZeroMinute), ('' '', stdPM)] (st\<lparr>p_hour := int h\<rparr>)
            (CHR '':'' # pad2 mi @ CHR '' '' # meridiem pm)"
    unfolding v by (rule parse_chunks_step[OF skip_space_pad2[OF h] parse_ZeroHour12_pad2[OF assms(2)]])
  also have "\<dots> = parse_chunks [('' '', stdPM)] (st\<lparr>p_hour := int h, p_min := int mi\<rparr>)
            (CHR '' '' # meridiem pm)"
    by (rule parse_chunks_step[OF skip_char parse_ZeroMinute_pad2[OF assms(3)]]) simp
  also have "\<dots> = parse_chunks []
            (if pm then st\<lparr>p_hour := int h, p_min := int mi, pmSet := True\<rparr>
             else st\<lparr>p_hour := int h, p_min := int mi, amSet := True\<rparr>) []"
    by (rule parse_chunks_step[OF skip_space_meridiem parse_PM_meridiem])
  finally show ?thesis by simp
qed

lemma parse_clock_unpadded:
  assumes "h < 10"
  shows "parse_chunks [('' '', stdZeroHour12), ('':'', stdZeroMinute), ('' '', stdPM)] st
           ('' '' @ clock_unpadded h mi pm) = Inl BadValue"
proof -
  have v: "'' '' @ clock_unpadded h mi pm
             = CHR '' '' # digit_char h # CHR '':'' # pad2 mi @ CHR '' '' # meridiem pm"
    using assms by (simp add: clock_unpadded_def unpadded_def)
  show ?thesis
    unfolding v
    by (rule parse_chunks_fail[OF skip_space_digit[OF assms] parse_ZeroHour12_one_digit[OF assms]])
qed

lemmas Observed_eval =
  Observed_def dated_def Parse_def layout_iso_date_def layout_slash_date_def
  layout_iso_date_time_def layout_slash_date_time_def parsed_init_def is_digit_def
  digit_val_def atoi_def leading_value_def daysIn_def isLeap_def Let_def cutspace_def

text \<open>The formatters on one date and one clock time.\<close>

lemma formatted_examples:
  "iso_date 2023 11 30 = ''2023-11-30''"
  "clock_padded 9 5 True = ''09:05 PM''"
  "clock_unpadded 9 5 True = ''9:05 PM''"
  by (simp_all add: iso_date_def clock_padded_def clock_unpadded_def pad4_def pad2_def
      unpadded_def digit_char_def meridiem_def)

text \<open>
  C3, as stated, fails: with the ISO date, the padded time resolves and the unpadded time
  is a format error.
\<close>

theorem iso_branch_rejects_unpadded_hour:
  "Observed (dated ''2024-05-01'' ''07:00 AM'')
     = Inr \<lparr>year = 2024, month = 5, day = 1, hour = 7, minute = 0\<rparr>
   \<and> Observed (dated ''2024-05-01'' ''7:00 AM'') = Inl BadValue"
  by (simp add: Observed_eval)

text \<open>
  C3, amended. On the ISO-date branch with a time present, the zero-padded twelve-hour
  form of every valid date and clock time resolves to that instant, and the unpadded form
  of a one-digit hour is a format error.
\<close>

theorem iso_branch_accepts_padded_hour_only:
  assumes "y < 10000" "1 \<le> m" "m \<le> 12" "1 \<le> d" "int d \<le> daysIn (int m) (int y)"
    and "1 \<le> h" "h \<le> 12" "mi < 60"
    and "Date r = iso_date y m d" "Time r = clock_padded h mi pm"
    and "Date r' = iso_date y m d" "Time r' = clock_unpadded h mi pm"
  shows "Observed r = Inr \<lparr>year = int y, month = int m, day = int d,
                           hour = int (hour24 h pm), minute = int mi\<rparr>
         \<and> (h < 10 \<longrightarrow> Observed r' = Inl BadValue)"
proof
  have d: "d < 100" using assms(5) by (simp add: daysIn_def split: if_splits)
  have m: "m < 100" using assms by simp
  have ns: "CHR ''/'' \<notin> set (iso_date y m d)"
    by (rule slash_notin_iso_date[OF assms(1) m d])
  have t: "clock_padded h mi pm \<noteq> []" "clock_unpadded h mi pm \<noteq> []"
    by (simp_all add: clock_padded_def clock_unpadded_def pad2_def)
  have pc: "parse_chunks layout_iso_date_time parsed_init
              (iso_date y m d @ '' '' @ clock_padded h mi pm)
            = Inr (if pm then parsed_init\<lparr>p_year := int y, p_month := int m, p_day := int d,
                                         p_hour := int h, p_min := int mi, pmSet := True\<rparr>
                   else parsed_init\<lparr>p_year := int y, p_month := int m, p_day := int d,
                                     p_hour := int h, p_min := int mi, amSet := True\<rparr>)"
    by (simp only: parse_iso_date_prefix[OF assms(1,2,3) d] parse_clock_padded[OF assms(6,7,8)])
  show "Observed r = Inr \<lparr>year = int y, month = int m, day = int d,
                           hour = int (hour24 h pm), minute = int mi\<rparr>"
    using assms(2,4,5,6,7) ns t(1) pc
    by (simp add: Observed_def assms(9,10) Parse_def Let_def parsed_init_def hour24_def)
  show "h < 10 \<longrightarrow> Observed r' = Inl BadValue"
  proof
    assume h: "h < 10"
    have "parse_chunks layout_iso_date_time parsed_init
              (iso_date y m d @ '' '' @ clock_unpadded h mi pm) = Inl BadValue"
      by (simp only: parse_iso_date_prefix[OF assms(1,2,3) d] parse_clock_unpadded[OF h])
    then show "Observed r' = Inl BadValue"
      using ns t(2) by (simp add: Observed_def assms(11,12) Parse_def)
  qed
qed

theorem iso_branch_accepts_padded_hour_only_witness:
  "Observed (dated ''2023-11-30'' ''09:05 PM'')
     = Inr \<lparr>year = 2023, month = 11, day = 30, hour = 21, minute = 5\<rparr>
   \<and> Observed (dated ''2023-11-30'' ''9:05 PM'') = Inl BadValue"
  using iso_branch_accepts_padded_hour_only
          [of 2023 11 30 9 5 "dated ''2023-11-30'' ''09:05 PM''" True
           "dated ''2023-11-30'' ''9:05 PM''"]
  by (simp add: formatted_examples daysIn_def hour24_def dated_def)

text \<open>
  C4. The five examples of timestamp resolution: the ISO date and the slash date without
  a time both resolve to midnight of May 1 2024, with a time they resolve to 07:00 and to
  15:04 of that day, and the date \<^verbatim>\<open>not-a-date\<close> is a format error whatever the time.
\<close>

theorem Observed_examples:
  "Observed (r\<lparr>Date := ''2024-05-01'', Time := ''''\<rparr>)
     = Inr \<lparr>year = 2024, month = 5, day = 1, hour = 0, minute = 0\<rparr>
   \<and> Observed (r\<lparr>Date := ''5/1/2024'', Time := ''''\<rparr>)
     = Inr \<lparr>year = 2024, month = 5, day = 1, hour = 0, minute = 0\<rparr>
   \<and> Observed (r\<lparr>Date := ''2024-05-01'', Time := ''07:00 AM''\<rparr>)
     = Inr \<lparr>year = 2024, month = 5, day = 1, hour = 7, minute = 0\<rparr>
   \<and> Observed (r\<lparr>Date := ''5/1/2024'', Time := ''3:04 PM''\<rparr>)
     = Inr \<lparr>year = 2024, month = 5, day = 1, hour = 15, minute = 4\<rparr>
   \<and> Observed (r\<lparr>Date := ''not-a-date'', Time := t\<rparr>) = Inl BadValue"
proof (intro conjI)
  show "Observed (r\<lparr>Date := ''2024-05-01'', Time := ''''\<rparr>)
     = Inr \<lparr>year = 2024, month = 5, day = 1, hour = 0, minute = 0\<rparr>"
    by (simp add: Observed_eval)
  show "Observed (r\<lparr>Date := ''5/1/2024'', Time := ''''\<rparr>)
     = Inr \<lparr>year = 2024, month = 5, day = 1, hour = 0, minute = 0\<rparr>"
    by (simp add: Observed_eval)
  show "Observed (r\<lparr>Date := ''2024-05-01'', Time := ''07:00 AM''\<rparr>)
     = Inr \<lparr>year = 2024, month = 5, day = 1, hour = 7, minute = 0\<rparr>"
    by (simp add: Observed_eval)
  show "Observed (r\<lparr>Date := ''5/1/2024'', Time := ''3:04 PM''\<rparr>)
     = Inr \<lparr>year = 2024, month = 5, day = 1, hour = 15, minute = 4\<rparr>"
    by (simp add: Observed_eval)
  show "Observed (r\<lparr>Date := ''not-a-date'', Time := t\<rparr>) = Inl BadValue"
    by (simp add: Observed_eval)
qed

subsection \<open>Asset resolution\<close>

lemma photo_url_neq_sound_url: "photo_url a \<noteq> sound_url a"
proof
  assume "photo_url a = sound_url a"
  then have "length (photo_url a) = length (sound_url a)" by simp
  then show False by (simp add: photo_url_def sound_url_def)
qed

text \<open>
  C6. If the photo probe answers 200, the photo URL is the only request and the sound
  endpoint is not asked. If it answers 404, the requests are the photo URL and then the
  sound URL, once. Any other status of the photo probe is returned at once as the error
  that carries the photo URL and the status text, and the sound endpoint is not asked.
\<close>

theorem probe_order:
  "(http_Get w (photo_url a) = Inr resp \<and> StatusCode resp = StatusOK
      \<longrightarrow> requests (DownloadMLAsset w a) = [photo_url a]
          \<and> sound_url a \<notin> set (requests (DownloadMLAsset w a)))
   \<and> (http_Get w (photo_url a) = Inr resp \<and> StatusCode resp = StatusNotFound
      \<longrightarrow> requests (DownloadMLAsset w a) = [photo_url a, sound_url a]
          \<and> count_list (requests (DownloadMLAsset w a)) (sound_url a) = 1)
   \<and> (http_Get w (photo_url a) = Inr resp \<and> StatusCode resp \<noteq> StatusOK
        \<and> StatusCode resp \<noteq> StatusNotFound
      \<longrightarrow> DownloadMLAsset w a
            = ([photo_url a], '''', False,
               Some (''DownloadMLAsset('' @ a @ ''): '' @ photo_url a @ '': '' @ Status resp))
          \<and> sound_url a \<notin> set (requests (DownloadMLAsset w a)))"
proof (intro conjI impI)
  assume a: "http_Get w (photo_url a) = Inr resp \<and> StatusCode resp = StatusOK"
  then show r: "requests (DownloadMLAsset w a) = [photo_url a]"
    by (simp add: DownloadMLAsset_def requests_def Let_def StatusOK_def StatusNotFound_def)
  show "sound_url a \<notin> set (requests (DownloadMLAsset w a))"
    using photo_url_neq_sound_url[of a] by (simp add: r)
next
  assume a: "http_Get w (photo_url a) = Inr resp \<and> StatusCode resp = StatusNotFound"
  then show r: "requests (DownloadMLAsset w a) = [photo_url a, sound_url a]"
    by (simp add: DownloadMLAsset_def requests_def Let_def split: sum.splits)
  show "count_list (requests (DownloadMLAsset w a)) (sound_url a) = 1"
    using photo_url_neq_sound_url[of a] by (simp add: r)
next
  assume a: "http_Get w (photo_url a) = Inr resp \<and> StatusCode resp \<noteq> StatusOK
        \<and> StatusCode resp \<noteq> StatusNotFound"
  then show r: "DownloadMLAsset w a
            = ([photo_url a], '''', False,
               Some (''DownloadMLAsset('' @ a @ ''): '' @ photo_url a @ '': '' @ Status resp))"
    by (simp add: DownloadMLAsset_def Let_def check_status_def err_head_def)
  show "sound_url a \<notin> set (requests (DownloadMLAsset w a))"
    using photo_url_neq_sound_url[of a] by (simp add: r requests_def)
qed


theorem probe_order_witness:
  "requests (DownloadMLAsset photo_world ''123'') = [photo_url ''123'']
   \<and> requests (DownloadMLAsset sound_only_world ''123'') = [photo_url ''123'', sound_url ''123'']
   \<and> DownloadMLAsset sound_only_world ''77''
     = ([photo_url ''77''], '''', False,
        Some (''DownloadMLAsset(77): '' @ photo_url ''77'' @ '': 500 Internal Server Error''))"
  using probe_order [of photo_world "''123''" "\<lparr>StatusCode = 200, Status = ''200 OK'', Body = ''JFIF''\<rparr>"]
    probe_order [of sound_only_world "''123''" "\<lparr>StatusCode = 404, Status = ''404 Not Found'', Body = []\<rparr>"]
    probe_order [of sound_only_world "''77''" "\<lparr>StatusCode = 500, Status = ''500 Internal Server Error'', Body = []\<rparr>"]
  by (simp add: sound_only_world_def photo_world_def StatusOK_def StatusNotFound_def photo_url_def sound_url_def)

end
